theory Spec2Isabelle
  imports Complex_Main "HOL-Library.Sublist"
begin

section \<open>Retrieval and sentence ranking of the RAG text summarizer\<close>

text \<open>
  The development embeds \<^verbatim>\<open>src/algorithms/statistical.py\<close>,
  \<^verbatim>\<open>src/algorithms/extractive.py\<close>, \<^verbatim>\<open>src/rag/embeddings.py\<close>,
  \<^verbatim>\<open>src/rag/retrieval.py\<close> and \<^verbatim>\<open>src/rag/pipeline.py\<close>.

  Conventions.
  \<^item> A Python \<^verbatim>\<open>str\<close> is a \<open>string\<close>; one \<open>char\<close> stands for one code point
    below 256, so the texts covered are those over Latin-1.
  \<^item> Python and NumPy floats (scores, distances, similarities) are \<open>real\<close>: rounding,
    infinities and NaN are not modelled. A statement that turns on the rounding of a
    float, such as which similarities come out equal, is outside the model; the number
    of results and the error paths do not depend on it.
  \<^item> An exception is a value \<open>Inl e\<close> of \<open>py_error + 'a\<close>.
  \<^item> A method that reads or writes \<^verbatim>\<open>self\<close> takes the object as a record and,
    where a statement is about the state of the object, returns it next to the result.
  \<^item> The third-party libraries (NLTK, scikit-learn, sumy, sentence-transformers, FAISS)
    are not part of the repository. What the code calls in them is a field of the record
    \<open>libs\<close>; a theorem that needs a property of a library call states it as a hypothesis
    on that call.
\<close>

subsection \<open>Python strings\<close>

text \<open>
  \<^verbatim>\<open>str.isspace\<close> on the code points below 256: TAB, LF, VT, FF, CR, the four
  separators 28 to 31, SPACE, NEL (133) and NBSP (160). \<^verbatim>\<open>str.strip()\<close> and the
  class \<^verbatim>\<open>\s\<close> of the module \<^verbatim>\<open>re\<close> use the same set.
\<close>

definition py_isspace :: "char \<Rightarrow> bool" where
  "py_isspace c = (of_char c \<in> {9, 10, 11, 12, 13, 28, 29, 30, 31, 32, 133, 160 :: nat})"

definition strip :: "string \<Rightarrow> string" where
  "strip s = rev (dropWhile py_isspace (rev (dropWhile py_isspace s)))"

text \<open>The test \<^verbatim>\<open>not text or not text.strip()\<close>.\<close>

definition blank :: "string \<Rightarrow> bool" where
  "blank text = (text = [] \<or> strip text = [])"

text \<open>\<^verbatim>\<open>re.sub(r'\s+', ' ', text)\<close>: every maximal run of whitespace becomes one space.\<close>

function sub_ws :: "string \<Rightarrow> string" where
  "sub_ws [] = []"
| "sub_ws (c # cs) =
     (if py_isspace c then CHR '' '' # sub_ws (dropWhile py_isspace cs)
      else c # sub_ws cs)"
  by pat_completeness auto
termination
  by (relation "measure length") (auto simp: length_dropWhile_le less_Suc_eq_le)

text \<open>\<^verbatim>\<open>' '.join(parts)\<close>.\<close>

fun join_sp :: "string list \<Rightarrow> string" where
  "join_sp [] = []"
| "join_sp [s] = s"
| "join_sp (s # t # ss) = s @ '' '' @ join_sp (t # ss)"

text \<open>
  The slice \<^verbatim>\<open>xs[:n]\<close>: the first \<open>n\<close> elements, and for a negative \<open>n\<close> all but the
  last \<open>-n\<close>.
\<close>

definition py_slice_to :: "'a list \<Rightarrow> int \<Rightarrow> 'a list" where
  "py_slice_to xs n = (if 0 \<le> n then take (nat n) xs else take (length xs - nat (- n)) xs)"

subsection \<open>Errors\<close>

datatype py_error = ValueError string | IndexError | AssertionError

text \<open>
  Every error of the code is a \<^verbatim>\<open>ValueError\<close>, told apart by its message. The
  conditions \<open>NotBuilt\<close>, \<open>NotIndexed\<close>, \<open>NotReady\<close> and \<open>EmptyCorpus\<close> are these values.
\<close>

definition NotBuilt :: py_error where
  "NotBuilt = ValueError ''Index not built. Call build_index() first.''"

definition NotIndexed :: py_error where
  "NotIndexed = ValueError ''Documents not indexed. Call index_documents() first.''"

definition NotReady :: py_error where
  "NotReady = ValueError ''Model not loaded. Call load_model() first.''"

definition EmptyCorpus :: py_error where
  "EmptyCorpus = ValueError ''Cannot build index from empty document list''"

text \<open>\<^verbatim>\<open>xs[i]\<close>: a negative index counts from the end, an index out of range raises.\<close>

definition py_index :: "'a list \<Rightarrow> int \<Rightarrow> py_error + 'a" where
  "py_index xs i =
     (if 0 \<le> i \<and> i < int (length xs) then Inr (xs ! nat i)
      else if i < 0 \<and> - int (length xs) \<le> i then Inr (xs ! nat (int (length xs) + i))
      else Inl IndexError)"

subsection \<open>The libraries\<close>

type_synonym meta = "(string \<times> string) list"

text \<open>
  A flat index: the dimension \<^verbatim>\<open>d\<close> and the stored vectors, in the order they were added;
  \<^verbatim>\<open>ntotal\<close> is their number.
\<close>

record faiss_index =
  faiss_d :: nat
  faiss_xb :: "real list list"

definition ntotal :: "faiss_index \<Rightarrow> nat" where
  "ntotal ix = length (faiss_xb ix)"

text \<open>
  \<^item> \<open>sent_tokenize\<close>, \<open>word_tokenize\<close>: NLTK's tokenizers.
  \<^item> \<open>str_lower\<close>, \<open>str_isalnum\<close>: \<^verbatim>\<open>str.lower\<close>, \<^verbatim>\<open>str.isalnum\<close>.
  \<^item> \<open>fit_transform\<close>: \<^verbatim>\<open>TfidfVectorizer(stop_words='english').fit_transform\<close>;
    \<open>None\<close> when it raises \<^verbatim>\<open>ValueError\<close>, else the dense row of each index.
  \<^item> \<open>parse_document\<close>: the sentences, as strings, of
    \<^verbatim>\<open>PlaintextParser.from_string(text, Tokenizer("english")).document\<close>.
  \<^item> \<open>sentence_transformer\<close>: \<^verbatim>\<open>SentenceTransformer(model_name).encode\<close>.
  \<^item> \<open>faiss_search\<close>: \<^verbatim>\<open>IndexFlatL2.search\<close> for one query vector; the pairs
    (distance, index) of \<^verbatim>\<open>zip(distances[0], indices[0])\<close>.
\<close>

record libs =
  sent_tokenize :: "string \<Rightarrow> string list"
  word_tokenize :: "string \<Rightarrow> string list"
  str_lower :: "string \<Rightarrow> string"
  str_isalnum :: "string \<Rightarrow> bool"
  fit_transform :: "string list \<Rightarrow> (nat \<Rightarrow> real list) option"
  parse_document :: "string \<Rightarrow> string list"
  sentence_transformer :: "string \<Rightarrow> string \<Rightarrow> real list"
  faiss_search :: "faiss_index \<Rightarrow> real list \<Rightarrow> int \<Rightarrow> py_error + (real \<times> int) list"

subsection \<open>StatisticalSummarizer\<close>

text \<open>The field \<open>method_name\<close> is the attribute \<^verbatim>\<open>self.method\<close>.\<close>

record statistical_summarizer =
  method_name :: string
  stop_words :: "string list"

definition preprocess_text :: "string \<Rightarrow> string" where
  "preprocess_text text = strip (sub_ws text)"

text \<open>
  A score dictionary \<open>{0: s0, ..., n-1: s(n-1)}\<close> is the list of its values: both scoring
  methods insert the keys \<open>0, ..., n-1\<close> in this order.
\<close>

definition calculate_sentence_scores_tfidf :: "libs \<Rightarrow> string list \<Rightarrow> real list" where
  "calculate_sentence_scores_tfidf L sentences =
     (if sentences = [] then []
      else case fit_transform L sentences of
             None \<Rightarrow> map (\<lambda>i. 0) [0..<length sentences]
           | Some row \<Rightarrow> map (\<lambda>i. sum_list (row i)) [0..<length sentences])"

definition content_words :: "libs \<Rightarrow> statistical_summarizer \<Rightarrow> string \<Rightarrow> string list" where
  "content_words L S text =
     filter (\<lambda>word. str_isalnum L word \<and> word \<notin> set (stop_words S))
       (word_tokenize L (str_lower L text))"

definition calculate_sentence_scores_frequency ::
  "libs \<Rightarrow> statistical_summarizer \<Rightarrow> string \<Rightarrow> string list \<Rightarrow> real list" where
  "calculate_sentence_scores_frequency L S text sentences =
     (let words = content_words L S text;
          max_freq = (if words = [] then 1 else fold max (map (count_list words) words) 0);
          word_freq = (\<lambda>word. real (count_list words word) / real max_freq)
      in map (\<lambda>sentence. sum_list (map word_freq (content_words L S sentence))) sentences)"

text \<open>
  \<^verbatim>\<open>sorted(sentence_scores, key=sentence_scores.get, reverse=True)[:num_sentences]\<close>,
  then \<^verbatim>\<open>sorted(top_indices)\<close>. Python's sort is stable, also with
  \<^verbatim>\<open>reverse=True\<close>: keys of equal score stay in ascending order.
\<close>

definition top_indices :: "real list \<Rightarrow> int \<Rightarrow> nat list" where
  "top_indices scores num_sentences =
     sort (py_slice_to (sort_key (\<lambda>i. - (scores ! i)) [0..<length scores]) num_sentences)"

definition sentence_scores :: "libs \<Rightarrow> statistical_summarizer \<Rightarrow> string \<Rightarrow> string list \<Rightarrow> real list" where
  "sentence_scores L S text sentences =
     (if method_name S = ''tfidf'' then calculate_sentence_scores_tfidf L sentences
      else calculate_sentence_scores_frequency L S text sentences)"

text \<open>
  \<open>statistical_sentences\<close> is the list of sentences the summary is made of: none for a
  blank text, all of them when the early return gives the whole text back, the selected
  ones otherwise. \<open>statistical_summarize\<close> is the method \<^verbatim>\<open>summarize\<close>.
\<close>

definition statistical_sentences ::
  "libs \<Rightarrow> statistical_summarizer \<Rightarrow> string \<Rightarrow> int \<Rightarrow> string list" where
  "statistical_sentences L S text0 num_sentences =
     (if blank text0 then []
      else let text = preprocess_text text0;
               sentences = sent_tokenize L text
           in if int (length sentences) \<le> num_sentences then sentences
              else map (\<lambda>i. sentences ! i)
                     (top_indices (sentence_scores L S text sentences) num_sentences))"

definition statistical_summarize ::
  "libs \<Rightarrow> statistical_summarizer \<Rightarrow> string \<Rightarrow> int \<Rightarrow> string" where
  "statistical_summarize L S text0 num_sentences =
     (if blank text0 then []
      else let text = preprocess_text text0;
               sentences = sent_tokenize L text
           in if int (length sentences) \<le> num_sentences then text
              else join_sp (map (\<lambda>i. sentences ! i)
                     (top_indices (sentence_scores L S text sentences) num_sentences)))"

subsection \<open>ExtractiveSummarizer\<close>

text \<open>
  \<open>summarizer\<close> is the sumy object chosen by the constructor (TextRank, LexRank or Luhn),
  called on the document's sentences and the count; the model keeps the strings of the
  sentences it returns.
\<close>

record extractive_summarizer =
  algorithm :: string
  summarizer :: "string list \<Rightarrow> int \<Rightarrow> string list"

definition extractive_sentences ::
  "libs \<Rightarrow> extractive_summarizer \<Rightarrow> string \<Rightarrow> int \<Rightarrow> string list" where
  "extractive_sentences L E text num_sentences =
     (if blank text then [] else summarizer E (parse_document L text) num_sentences)"

definition extractive_summarize ::
  "libs \<Rightarrow> extractive_summarizer \<Rightarrow> string \<Rightarrow> int \<Rightarrow> string" where
  "extractive_summarize L E text num_sentences =
     (if blank text then []
      else join_sp (summarizer E (parse_document L text) num_sentences))"

subsection \<open>EmbeddingModel\<close>

record embedding_model =
  model_name :: string
  model :: "(string \<Rightarrow> real list) option"

definition load_model :: "libs \<Rightarrow> embedding_model \<Rightarrow> embedding_model" where
  "load_model L m = m\<lparr>model := Some (sentence_transformer L (model_name m))\<rparr>"

definition embed_text :: "embedding_model \<Rightarrow> string \<Rightarrow> py_error + real list" where
  "embed_text m t = (case model m of None \<Rightarrow> Inl NotReady | Some encode \<Rightarrow> Inr (encode t))"

definition embed_batch :: "embedding_model \<Rightarrow> string list \<Rightarrow> py_error + real list list" where
  "embed_batch m texts =
     (case model m of None \<Rightarrow> Inl NotReady | Some encode \<Rightarrow> Inr (map encode texts))"

subsection \<open>VectorRetriever\<close>

text \<open>
  The retriever holds its own copy of the embedding model record; in the source the
  pipeline and its retriever share one object, which no statement below depends on.
\<close>

record vector_retriever =
  embedding_model :: embedding_model
  index :: "faiss_index option"
  documents :: "string list"
  metadata :: "meta list"

definition new_retriever :: "embedding_model \<Rightarrow> vector_retriever" where
  "new_retriever m = \<lparr>embedding_model = m, index = None, documents = [], metadata = []\<rparr>"

text \<open>
  \<^verbatim>\<open>build_index\<close> stores the documents and the metadata before it embeds, so an error of
  the embedding step leaves them stored. \<^verbatim>\<open>embeddings.shape[1]\<close> is the length of a row;
  the list of rows is not empty there.
\<close>

definition build_index ::
  "vector_retriever \<Rightarrow> string list \<Rightarrow> meta list option \<Rightarrow> (py_error + unit) \<times> vector_retriever" where
  "build_index r docs md =
     (if docs = [] then (Inl EmptyCorpus, r)
      else
        let r1 = r\<lparr>documents := docs,
                   metadata := (case md of None \<Rightarrow> map (\<lambda>_. []) docs
                                | Some ms \<Rightarrow> if ms = [] then map (\<lambda>_. []) docs else ms)\<rparr>
        in case embed_batch (embedding_model r1) docs of
             Inl e \<Rightarrow> (Inl e, r1)
           | Inr embeddings \<Rightarrow>
               (case embeddings of
                  [] \<Rightarrow> (Inl IndexError, r1)
                | row # _ \<Rightarrow>
                    (Inr (), r1\<lparr>index := Some \<lparr>faiss_d = length row, faiss_xb = embeddings\<rparr>\<rparr>)))"

text \<open>
  The loop over \<^verbatim>\<open>zip(distances[0], indices[0])\<close>: a hit whose index is below the number
  of documents gives one tuple (document, similarity, metadata), any other hit is skipped.
  The source computes \<^verbatim>\<open>1 / (1 + dist)\<close> in float32; here it is the exact quotient.
\<close>

fun collect_results ::
  "string list \<Rightarrow> meta list \<Rightarrow> (real \<times> int) list \<Rightarrow> py_error + (string \<times> real \<times> meta) list" where
  "collect_results docs metas [] = Inr []"
| "collect_results docs metas ((dis, idx) # hits) =
     (if idx < int (length docs) then
        (case py_index docs idx of
           Inl e \<Rightarrow> Inl e
         | Inr doc \<Rightarrow>
             (case py_index metas idx of
                Inl e \<Rightarrow> Inl e
              | Inr m \<Rightarrow>
                  (case collect_results docs metas hits of
                     Inl e \<Rightarrow> Inl e
                   | Inr rest \<Rightarrow> Inr ((doc, 1 / (1 + dis), m) # rest))))
      else collect_results docs metas hits)"

definition retrieve ::
  "libs \<Rightarrow> vector_retriever \<Rightarrow> string \<Rightarrow> int
     \<Rightarrow> (py_error + (string \<times> real \<times> meta) list) \<times> vector_retriever" where
  "retrieve L r query_text top_k =
     (case index r of
        None \<Rightarrow> (Inl NotBuilt, r)
      | Some ix \<Rightarrow>
          (case embed_text (embedding_model r) query_text of
             Inl e \<Rightarrow> (Inl e, r)
           | Inr query_embedding \<Rightarrow>
               (case faiss_search L ix query_embedding (min top_k (int (length (documents r)))) of
                  Inl e \<Rightarrow> (Inl e, r)
                | Inr hits \<Rightarrow> (collect_results (documents r) (metadata r) hits, r))))"

definition create_retriever ::
  "embedding_model \<Rightarrow> string list \<Rightarrow> meta list option \<Rightarrow> py_error + vector_retriever" where
  "create_retriever m docs md =
     (case build_index (new_retriever m) docs md of
        (Inl e, _) \<Rightarrow> Inl e
      | (Inr _, r) \<Rightarrow> Inr r)"

subsection \<open>RAGPipeline\<close>

record rag_pipeline =
  pipeline_embedding_model :: embedding_model
  retriever :: "vector_retriever option"
  extractive_summarizer :: extractive_summarizer
  statistical_summarizer :: statistical_summarizer

text \<open>The dictionary returned by \<^verbatim>\<open>query_and_summarize\<close>, one field for each key.\<close>

record rag_result =
  res_query :: string
  res_retrieved_documents :: "(string \<times> real \<times> meta) list"
  res_summary :: string
  res_num_retrieved :: nat

definition index_documents ::
  "rag_pipeline \<Rightarrow> string list \<Rightarrow> meta list option \<Rightarrow> (py_error + unit) \<times> rag_pipeline" where
  "index_documents p docs md =
     (case create_retriever (pipeline_embedding_model p) docs md of
        Inl e \<Rightarrow> (Inl e, p)
      | Inr r \<Rightarrow> (Inr (), p\<lparr>retriever := Some r\<rparr>))"

definition query_and_summarize ::
  "libs \<Rightarrow> rag_pipeline \<Rightarrow> string \<Rightarrow> int \<Rightarrow> int \<Rightarrow> string
     \<Rightarrow> (py_error + rag_result) \<times> rag_pipeline" where
  "query_and_summarize L p query_text top_k num_sentences summarization_method =
     (case retriever p of
        None \<Rightarrow> (Inl NotIndexed, p)
      | Some r \<Rightarrow>
          (case retrieve L r query_text top_k of
             (Inl e, r') \<Rightarrow> (Inl e, p\<lparr>retriever := Some r'\<rparr>)
           | (Inr results, r') \<Rightarrow>
               (let combined_text = join_sp (map fst results);
                    summary =
                      (if summarization_method = ''extractive''
                       then extractive_summarize L (extractive_summarizer p) combined_text num_sentences
                       else statistical_summarize L (statistical_summarizer p) combined_text num_sentences)
                in (Inr \<lparr>res_query = query_text, res_retrieved_documents = results,
                         res_summary = summary, res_num_retrieved = length results\<rparr>,
                    p\<lparr>retriever := Some r'\<rparr>))))"

subsection \<open>What the statements ask of the libraries\<close>

text \<open>
  A flat index answers a search for \<open>k\<close> neighbours among \<open>n\<close> stored vectors, with
  \<open>1 \<le> k \<le> n\<close>, by \<open>k\<close> hits: distances that are not negative, in ascending order, and
  indices of stored vectors.
\<close>

definition knn_answer :: "nat \<Rightarrow> int \<Rightarrow> (real \<times> int) list \<Rightarrow> bool" where
  "knn_answer n k hits =
     (int (length hits) = k \<and> sorted (map fst hits)
      \<and> list_all (\<lambda>(dis, idx). 0 \<le> dis \<and> 0 \<le> idx \<and> idx < int n) hits)"

text \<open>
  The documents come with one metadata dictionary each, or with none at all (the spec's
  build takes a sequence of pairs of a text and its metadata).
\<close>

definition metadata_aligned :: "string list \<Rightarrow> meta list option \<Rightarrow> bool" where
  "metadata_aligned docs md =
     (case md of None \<Rightarrow> True | Some ms \<Rightarrow> ms = [] \<or> length ms = length docs)"

text \<open>
  A sumy summarizer returns the best \<open>count\<close> sentences of the document, or all of them
  when there are fewer, in the order of the document.
\<close>

definition best_sentences :: "string list \<Rightarrow> int \<Rightarrow> string list \<Rightarrow> bool" where
  "best_sentences doc n res = (subseq res doc \<and> length res = min (nat n) (length doc))"

subsection \<open>A small instance\<close>

text \<open>
  Concrete libraries on which the definitions can be evaluated: sentences end at a full
  stop, words are separated by spaces and full stops, the weight of a sentence is its
  number of words, the embedding of a text is its length, and the search is an exact scan
  of the stored vectors. The texts of the instance have one line.
\<close>

fun cut_sentences :: "string \<Rightarrow> string \<Rightarrow> string list" where
  "cut_sentences acc [] = (if acc = [] then [] else [rev acc])"
| "cut_sentences acc (c # cs) =
     (if c = CHR ''.'' then rev (c # acc) # cut_sentences [] cs
      else if acc = [] \<and> c = CHR '' '' then cut_sentences [] cs
      else cut_sentences (c # acc) cs)"

fun cut_words :: "string \<Rightarrow> string \<Rightarrow> string list" where
  "cut_words acc [] = (if acc = [] then [] else [rev acc])"
| "cut_words acc (c # cs) =
     (if c = CHR '' '' \<or> c = CHR ''.''
      then (if acc = [] then [] else [rev acc]) @ cut_words [] cs
      else cut_words (c # acc) cs)"

definition l2sqr :: "real list \<Rightarrow> real list \<Rightarrow> real" where
  "l2sqr x y = sum_list (map (\<lambda>(a, b). (a - b) * (a - b)) (zip x y))"

text \<open>
  \<open>flat_scan\<close> reads the stored vectors from the first to the last and gives the \<open>k\<close>
  nearest in ascending distance; the sort is stable, so hits at equal distance come out in
  the order they were stored.
\<close>

definition flat_scan :: "faiss_index \<Rightarrow> real list \<Rightarrow> int \<Rightarrow> py_error + (real \<times> int) list" where
  "flat_scan ix q k =
     (if length q \<noteq> faiss_d ix \<or> k \<le> 0 then Inl AssertionError
      else Inr (take (nat k)
             (sort_key fst (zip (map (l2sqr q) (faiss_xb ix)) (map int [0..<ntotal ix])))))"

text \<open>
  sumy's plain text parser takes a line whose cased letters are all upper case
  (\<^verbatim>\<open>line.isupper()\<close>) for a heading, and a heading is not among the sentences of the
  document. \<open>heading_line\<close> is that test on the letters A to Z and a to z.
\<close>

definition upper_letter :: "char \<Rightarrow> bool" where
  "upper_letter c = (65 \<le> (of_char c :: nat) \<and> (of_char c :: nat) \<le> 90)"

definition lower_letter :: "char \<Rightarrow> bool" where
  "lower_letter c = (97 \<le> (of_char c :: nat) \<and> (of_char c :: nat) \<le> 122)"

definition heading_line :: "string \<Rightarrow> bool" where
  "heading_line line = (list_ex upper_letter line \<and> \<not> list_ex lower_letter line)"

definition plain_text_sentences :: "string \<Rightarrow> string list" where
  "plain_text_sentences text =
     (if heading_line (strip text) then [] else cut_sentences [] (strip text))"

definition sample_libs :: libs where
  "sample_libs =
     \<lparr>sent_tokenize = cut_sentences [],
      word_tokenize = cut_words [],
      str_lower = (\<lambda>s. s),
      str_isalnum = (\<lambda>w. w \<noteq> []),
      fit_transform = (\<lambda>ss. Some (\<lambda>i. [real (length (cut_words [] (ss ! i)))])),
      parse_document = plain_text_sentences,
      sentence_transformer = (\<lambda>name t. [real (length t)]),
      faiss_search = flat_scan\<rparr>"

definition sample_statistical :: statistical_summarizer where
  "sample_statistical = \<lparr>method_name = ''tfidf'', stop_words = [''the'', ''a'']\<rparr>"

text \<open>The longest sentences first, given back in the order of the document.\<close>

definition sample_extractive :: extractive_summarizer where
  "sample_extractive =
     \<lparr>algorithm = ''textrank'',
      summarizer = (\<lambda>doc n. map (\<lambda>i. doc ! i) (top_indices (map (\<lambda>s. real (length s)) doc) n))\<rparr>"

definition sample_text :: string where
  "sample_text = ''a b.  c d e. f.''"

definition sample_story :: string where
  "sample_story = ''Cats purr.  Dogs bark loudly. Birds sing.''"

definition sample_heading :: string where
  "sample_heading = ''HELLO WORLD.''"

definition sample_model :: embedding_model where
  "sample_model = load_model sample_libs \<lparr>model_name = ''all-MiniLM-L6-v2'', model = None\<rparr>"

definition sample_docs :: "string list" where
  "sample_docs = [''a b. c d.'', ''e f. g h.'', ''iiiii.'']"

definition sample_index :: faiss_index where
  "sample_index = \<lparr>faiss_d = 1, faiss_xb = [[9], [9], [6]]\<rparr>"

definition sample_retriever :: vector_retriever where
  "sample_retriever = snd (build_index (new_retriever sample_model) sample_docs None)"

definition sample_unindexed :: rag_pipeline where
  "sample_unindexed =
     \<lparr>pipeline_embedding_model = sample_model, retriever = None,
      extractive_summarizer = sample_extractive,
      statistical_summarizer = sample_statistical\<rparr>"

definition sample_pipeline :: rag_pipeline where
  "sample_pipeline = snd (index_documents sample_unindexed sample_docs None)"

section \<open>Properties\<close>

subsection \<open>Selection of the top sentences\<close>

lemma strict_sorted_subseq_upt:
  assumes "sorted_wrt (<) (js :: nat list)" and "set js \<subseteq> {..<n}"
  shows "subseq js [0..<n]"
proof -
  have "filter (\<lambda>i. i \<in> set js) [0..<n] = js"
  proof (rule sorted_distinct_set_unique)
    show "sorted (filter (\<lambda>i. i \<in> set js) [0..<n])" by (simp add: sorted_wrt_filter)
    show "distinct (filter (\<lambda>i. i \<in> set js) [0..<n])" by simp
    show "sorted js" using assms(1) by (simp add: strict_sorted_iff)
    show "distinct js" using assms(1) by (simp add: strict_sorted_iff)
    show "set (filter (\<lambda>i. i \<in> set js) [0..<n]) = set js" using assms(2) by auto
  qed
  then show ?thesis by (metis subseq_filter_left)
qed

lemma subseq_map_nth:
  assumes "sorted_wrt (<) (js :: nat list)" and "set js \<subseteq> {..<length xs}"
  shows "subseq (map (\<lambda>i. xs ! i) js) xs"
proof -
  have "subseq (map (\<lambda>i. xs ! i) js) (map (\<lambda>i. xs ! i) [0..<length xs])"
    using strict_sorted_subseq_upt[OF assms] by (rule subseq_map)
  then show ?thesis by (simp add: map_nth)
qed

lemma set_py_slice_to: "set (py_slice_to xs n) \<subseteq> set xs"
  by (auto simp: py_slice_to_def dest: in_set_takeD)

lemma distinct_py_slice_to: "distinct xs \<Longrightarrow> distinct (py_slice_to xs n)"
  by (simp add: py_slice_to_def)

lemma length_py_slice_to: "0 \<le> n \<Longrightarrow> length (py_slice_to xs n) = min (nat n) (length xs)"
  by (simp add: py_slice_to_def)

lemma top_indices_strict: "sorted_wrt (<) (top_indices scores n)"
  by (simp add: top_indices_def strict_sorted_iff distinct_py_slice_to)

lemma top_indices_range: "set (top_indices scores n) \<subseteq> {..<length scores}"
  using set_py_slice_to[of "sort_key (\<lambda>i. - (scores ! i)) [0..<length scores]" n]
  by (auto simp: top_indices_def)

lemma length_top_indices:
  "0 \<le> n \<Longrightarrow> length (top_indices scores n) = min (nat n) (length scores)"
  by (simp add: top_indices_def length_py_slice_to)

lemma length_sentence_scores: "length (sentence_scores L S text sentences) = length sentences"
  by (simp add: sentence_scores_def calculate_sentence_scores_tfidf_def
      calculate_sentence_scores_frequency_def Let_def split: option.splits)

lemma length_statistical_sentences:
  assumes "0 \<le> n"
  shows "length (statistical_sentences L S text n)
       = (if blank text then 0
          else min (nat n) (length (sent_tokenize L (preprocess_text text))))"
  using assms
  by (auto simp: statistical_sentences_def Let_def length_top_indices length_sentence_scores)

text \<open>The equations that evaluate the small instance.\<close>

lemmas sample_eval =
  sample_text_def sample_story_def sample_heading_def
  sample_libs_def sample_statistical_def sample_extractive_def
  plain_text_sentences_def heading_line_def upper_letter_def lower_letter_def
  preprocess_text_def strip_def blank_def py_isspace_def
  statistical_summarize_def statistical_sentences_def extractive_summarize_def
  extractive_sentences_def sentence_scores_def calculate_sentence_scores_tfidf_def
  top_indices_def py_slice_to_def upt_rec

subsection \<open>The summarizers\<close>

text \<open>
  C10. For every \<open>num_sentences\<close>, \<^verbatim>\<open>summarize\<close> of either family on a text that is
  empty or holds only whitespace (every character of it is whitespace, which the empty
  text satisfies) returns the empty string: the guard returns before any library is
  called, and the method has no \<^verbatim>\<open>raise\<close>, so no error reaches the caller.
\<close>

theorem summarize_blank_returns_empty:
  assumes "list_all py_isspace text"
  shows "statistical_summarize L S text num_sentences = []
       \<and> extractive_summarize L E text num_sentences = []"
proof -
  from assms have "dropWhile py_isspace text = []"
    by (auto simp: list_all_iff)
  then have "blank text"
    by (simp add: blank_def strip_def del: dropWhile_eq_Nil_conv)
  then show ?thesis
    by (simp add: statistical_summarize_def extractive_summarize_def)
qed

theorem summarize_blank_returns_empty_witness:
  "list_all py_isspace [CHR '' '', CHR 0x0A, CHR 0x09]
   \<and> statistical_summarize sample_libs sample_statistical [CHR '' '', CHR 0x0A, CHR 0x09] 3 = []
   \<and> extractive_summarize sample_libs sample_extractive [CHR '' '', CHR 0x0A, CHR 0x09] 3 = []"
  using summarize_blank_returns_empty
    [of "[CHR '' '', CHR 0x0A, CHR 0x09]" sample_libs sample_statistical 3 sample_extractive]
  by (simp add: py_isspace_def)

text \<open>
  C2. For a text that is not blank and has more sentences than \<open>num_sentences\<close>, the
  statistical summary is the join of the sentences at the selected indices, and these
  indices are strictly ascending positions of the sentence list: the summary is a
  subsequence of the source sentences, whatever the scores are. The extractive summary is
  the join of what the sumy summarizer returns, in the order it returns it, so it is in
  source order when the summarizer's selection is (sumy gives the selected sentences back
  in document order).
\<close>

theorem summary_keeps_source_order:
  assumes "\<not> blank text"
    and "num_sentences < int (length (sent_tokenize L (preprocess_text text)))"
    and "subseq (summarizer E (parse_document L text) num_sentences) (parse_document L text)"
  shows "(let sentences = sent_tokenize L (preprocess_text text);
              picked = top_indices (sentence_scores L S (preprocess_text text) sentences) num_sentences
          in sorted_wrt (<) picked
             \<and> list_all (\<lambda>i. i < length sentences) picked
             \<and> statistical_sentences L S text num_sentences = map (\<lambda>i. sentences ! i) picked
             \<and> statistical_summarize L S text num_sentences = join_sp (map (\<lambda>i. sentences ! i) picked)
             \<and> subseq (map (\<lambda>i. sentences ! i) picked) sentences)
       \<and> extractive_summarize L E text num_sentences
           = join_sp (extractive_sentences L E text num_sentences)
       \<and> subseq (extractive_sentences L E text num_sentences) (parse_document L text)"
proof -
  define sentences where "sentences = sent_tokenize L (preprocess_text text)"
  define picked where
    "picked = top_indices (sentence_scores L S (preprocess_text text) sentences) num_sentences"
  have strict: "sorted_wrt (<) picked"
    unfolding picked_def by (rule top_indices_strict)
  have range: "set picked \<subseteq> {..<length sentences}"
    unfolding picked_def using top_indices_range[of "sentence_scores L S (preprocess_text text) sentences"]
    by (simp add: length_sentence_scores)
  then have all: "list_all (\<lambda>i. i < length sentences) picked"
    by (auto simp: list_all_iff)
  have more: "\<not> int (length sentences) \<le> num_sentences"
    using assms(2) by (simp add: sentences_def)
  have sents: "statistical_sentences L S text num_sentences = map (\<lambda>i. sentences ! i) picked"
    using assms(1) more
    by (simp add: statistical_sentences_def Let_def sentences_def picked_def)
  have summ: "statistical_summarize L S text num_sentences = join_sp (map (\<lambda>i. sentences ! i) picked)"
    using assms(1) more
    by (simp add: statistical_summarize_def Let_def sentences_def picked_def)
  have sub: "subseq (map (\<lambda>i. sentences ! i) picked) sentences"
    using strict range by (rule subseq_map_nth)
  have ext: "extractive_summarize L E text num_sentences
           = join_sp (extractive_sentences L E text num_sentences)"
    by (simp add: extractive_summarize_def extractive_sentences_def)
  have ext_sub: "subseq (extractive_sentences L E text num_sentences) (parse_document L text)"
    using assms(1,3) by (simp add: extractive_sentences_def)
  from strict all sents summ sub ext ext_sub show ?thesis
    unfolding Let_def sentences_def picked_def by simp
qed

theorem summary_keeps_source_order_witness:
  "\<not> blank sample_text
   \<and> 2 < int (length (sent_tokenize sample_libs (preprocess_text sample_text)))
   \<and> subseq (summarizer sample_extractive (parse_document sample_libs sample_text) 2)
        (parse_document sample_libs sample_text)
   \<and> sentence_scores sample_libs sample_statistical (preprocess_text sample_text)
        (sent_tokenize sample_libs (preprocess_text sample_text)) = [2, 3, 1]
   \<and> statistical_summarize sample_libs sample_statistical sample_text 2 = ''a b. c d e.''
   \<and> subseq [''a b.'', ''c d e.''] (sent_tokenize sample_libs (preprocess_text sample_text))
   \<and> extractive_summarize sample_libs sample_extractive sample_text 2 = ''a b. c d e.''"
proof -
  have h1: "\<not> blank sample_text"
    by (simp add: sample_eval)
  have h2: "2 < int (length (sent_tokenize sample_libs (preprocess_text sample_text)))"
    by (simp add: sample_eval)
  have h3: "subseq (summarizer sample_extractive (parse_document sample_libs sample_text) 2)
        (parse_document sample_libs sample_text)"
    by (simp add: sample_eval)
  have sc: "sentence_scores sample_libs sample_statistical (preprocess_text sample_text)
        (sent_tokenize sample_libs (preprocess_text sample_text)) = [2, 3, 1]"
    by (simp add: sample_eval)
  have pk: "top_indices [2, 3, 1] 2 = [0, 1]"
    by (simp add: sample_eval)
  have st: "sent_tokenize sample_libs (preprocess_text sample_text) = [''a b.'', ''c d e.'', ''f.'']"
    by (simp add: sample_eval)
  have ex: "extractive_sentences sample_libs sample_extractive sample_text 2 = [''a b.'', ''c d e.'']"
    by (simp add: sample_eval)
  note sc' = sc[unfolded st]
  from summary_keeps_source_order[OF h1 h2 h3, of sample_statistical]
  show ?thesis
    using h1 h2 h3 sc unfolding Let_def st sc' pk ex by simp
qed

text \<open>
  C3. For a text that is not blank and has at most \<open>num_sentences\<close> sentences, the
  statistical summarizer returns the whitespace-normalized text itself, before any
  scoring: the result is the same whatever the scoring method and the libraries do. This
  is the statement for the statistical family.
\<close>

theorem statistical_small_text_returned_whole:
  assumes "\<not> blank text"
    and "int (length (sent_tokenize L (preprocess_text text))) \<le> num_sentences"
  shows "statistical_summarize L S text num_sentences = preprocess_text text"
  using assms by (simp add: statistical_summarize_def Let_def)

theorem statistical_small_text_returned_whole_witness:
  "\<not> blank sample_story
   \<and> int (length (sent_tokenize sample_libs (preprocess_text sample_story))) \<le> 3
   \<and> statistical_summarize sample_libs sample_statistical sample_story 3
       = ''Cats purr. Dogs bark loudly. Birds sing.''"
proof -
  have h1: "\<not> blank sample_story"
    by (simp add: sample_eval)
  have h2: "int (length (sent_tokenize sample_libs (preprocess_text sample_story))) \<le> 3"
    by (simp add: sample_eval)
  have pp: "preprocess_text sample_story = ''Cats purr. Dogs bark loudly. Birds sing.''"
    by (simp add: sample_eval)
  from statistical_small_text_returned_whole[OF h1 h2, of sample_statistical]
  show ?thesis
    using h1 h2 unfolding pp by simp
qed

text \<open>
  The statement does not extend to the extractive family.
  \<^verbatim>\<open>ExtractiveSummarizer.summarize\<close> has no branch for a short text: it always parses the
  text and calls the sumy summarizer, and returns the join of the sentences that come
  back. A one-line text in upper case is a heading for sumy's parser, so the document has
  no sentence and the summary is empty, not the text.
\<close>

theorem extractive_small_text_counterexample:
  "\<not> blank sample_heading
   \<and> sent_tokenize sample_libs (preprocess_text sample_heading) = [''HELLO WORLD.'']
   \<and> parse_document sample_libs sample_heading = []
   \<and> int (length (sent_tokenize sample_libs (preprocess_text sample_heading))) \<le> 3
   \<and> int (length (parse_document sample_libs sample_heading)) \<le> 3
   \<and> preprocess_text sample_heading = ''HELLO WORLD.''
   \<and> extractive_summarize sample_libs sample_extractive sample_heading 3 = []
   \<and> extractive_summarize sample_libs sample_extractive sample_heading 3
       \<noteq> preprocess_text sample_heading"
  by (simp add: sample_eval)

text \<open>
  The summary of a text is made of a list of sentences: it is their join, or, when the
  whole text is returned, the text they are the sentences of.
\<close>

lemma statistical_summary_made_of:
  "statistical_summarize L S text n = join_sp (statistical_sentences L S text n)
   \<or> sent_tokenize L (statistical_summarize L S text n) = statistical_sentences L S text n"
  by (simp add: statistical_summarize_def statistical_sentences_def Let_def)

text \<open>
  C9. The number of sentences a summary is made of does not decrease when
  \<open>num_sentences\<close> grows from \<open>n1\<close> to \<open>n2\<close>, for \<open>0 \<le> n1 \<le> n2\<close>, in both families (the sumy
  summarizer is asked for \<open>n1\<close> and for \<open>n2\<close> sentences and returns that many, or all there
  are).
\<close>

theorem summary_length_monotone:
  assumes "0 \<le> n1" and "n1 \<le> n2"
    and "best_sentences (parse_document L text) n1 (summarizer E (parse_document L text) n1)"
    and "best_sentences (parse_document L text) n2 (summarizer E (parse_document L text) n2)"
  shows "(statistical_summarize L S text n1 = join_sp (statistical_sentences L S text n1)
          \<or> sent_tokenize L (statistical_summarize L S text n1) = statistical_sentences L S text n1)
       \<and> (statistical_summarize L S text n2 = join_sp (statistical_sentences L S text n2)
          \<or> sent_tokenize L (statistical_summarize L S text n2) = statistical_sentences L S text n2)
       \<and> length (statistical_sentences L S text n1) \<le> length (statistical_sentences L S text n2)
       \<and> extractive_summarize L E text n1 = join_sp (extractive_sentences L E text n1)
       \<and> extractive_summarize L E text n2 = join_sp (extractive_sentences L E text n2)
       \<and> length (extractive_sentences L E text n1) \<le> length (extractive_sentences L E text n2)"
proof -
  have n: "nat n1 \<le> nat n2" "0 \<le> n2" using assms(1,2) by simp_all
  have stat: "length (statistical_sentences L S text n1) \<le> length (statistical_sentences L S text n2)"
    unfolding length_statistical_sentences[OF assms(1)] length_statistical_sentences[OF n(2)]
    using n(1) by (simp add: min.coboundedI1)
  have ext: "length (extractive_sentences L E text n1) \<le> length (extractive_sentences L E text n2)"
    using n(1) assms(3,4) unfolding extractive_sentences_def best_sentences_def
    by (simp add: min.coboundedI1)
  have joins: "extractive_summarize L E text n1 = join_sp (extractive_sentences L E text n1)"
    "extractive_summarize L E text n2 = join_sp (extractive_sentences L E text n2)"
    by (simp_all add: extractive_summarize_def extractive_sentences_def)
  from statistical_summary_made_of[of L S _ n1] statistical_summary_made_of[of L S _ n2]
    stat ext joins
  show ?thesis by blast
qed

theorem summary_length_monotone_witness:
  "(0::int) \<le> 1 \<and> (1::int) \<le> 2
   \<and> best_sentences (parse_document sample_libs sample_story) 1
        (summarizer sample_extractive (parse_document sample_libs sample_story) 1)
   \<and> best_sentences (parse_document sample_libs sample_story) 2
        (summarizer sample_extractive (parse_document sample_libs sample_story) 2)
   \<and> statistical_summarize sample_libs sample_statistical sample_story 1 = ''Dogs bark loudly.''
   \<and> statistical_summarize sample_libs sample_statistical sample_story 2
       = ''Cats purr. Dogs bark loudly.''
   \<and> length (statistical_sentences sample_libs sample_statistical sample_story 1)
       \<le> length (statistical_sentences sample_libs sample_statistical sample_story 2)
   \<and> extractive_summarize sample_libs sample_extractive sample_story 1 = ''Dogs bark loudly.''
   \<and> extractive_summarize sample_libs sample_extractive sample_story 2
       = ''Dogs bark loudly. Birds sing.''
   \<and> length (extractive_sentences sample_libs sample_extractive sample_story 1)
       \<le> length (extractive_sentences sample_libs sample_extractive sample_story 2)"
proof -
  have h1: "(0::int) \<le> 1" and h2: "(1::int) \<le> 2"
    by simp_all
  have h3: "best_sentences (parse_document sample_libs sample_story) 1
        (summarizer sample_extractive (parse_document sample_libs sample_story) 1)"
    by (simp add: sample_eval best_sentences_def)
  have h4: "best_sentences (parse_document sample_libs sample_story) 2
        (summarizer sample_extractive (parse_document sample_libs sample_story) 2)"
    by (simp add: sample_eval best_sentences_def)
  have s1: "statistical_summarize sample_libs sample_statistical sample_story 1 = ''Dogs bark loudly.''"
    by (simp add: sample_eval)
  have s2: "statistical_summarize sample_libs sample_statistical sample_story 2
       = ''Cats purr. Dogs bark loudly.''"
    by (simp add: sample_eval)
  have e1: "extractive_summarize sample_libs sample_extractive sample_story 1 = ''Dogs bark loudly.''"
    by (simp add: sample_eval)
  have e2: "extractive_summarize sample_libs sample_extractive sample_story 2
       = ''Dogs bark loudly. Birds sing.''"
    by (simp add: sample_eval)
  from summary_length_monotone[OF h1 h2 h3 h4, of sample_statistical]
  show ?thesis
    using h3 h4 s1 s2 e1 e2 by simp
qed

text \<open>
  Without \<open>0 \<le> n1\<close> the statement fails. The code takes any integer, and the slice
  \<^verbatim>\<open>[:num_sentences]\<close> with a negative number drops from the end: of the three
  sentences, \<open>num_sentences = -1\<close> keeps two and \<open>num_sentences = 0\<close> keeps none.
\<close>

theorem summary_length_negative_counterexample:
  "(- 1 :: int) \<le> 0
   \<and> statistical_summarize sample_libs sample_statistical sample_story (- 1)
       = ''Cats purr. Dogs bark loudly.''
   \<and> statistical_sentences sample_libs sample_statistical sample_story (- 1)
       = [''Cats purr.'', ''Dogs bark loudly.'']
   \<and> statistical_summarize sample_libs sample_statistical sample_story 0 = []
   \<and> statistical_sentences sample_libs sample_statistical sample_story 0 = []
   \<and> \<not> length (statistical_sentences sample_libs sample_statistical sample_story (- 1))
         \<le> length (statistical_sentences sample_libs sample_statistical sample_story 0)"
  by (simp add: sample_eval)

text \<open>
  C5. The spec has \<^verbatim>\<open>summarize\<close> fail with \<open>InvalidInput\<close> on an empty or
  whitespace-only text, and the tests of both families expect a \<^verbatim>\<open>ValueError\<close>
  for the empty text. The code returns the empty string instead: evaluated at the empty
  text and at a text of three spaces, for any libraries, summarizers and \<open>num_sentences\<close>.
\<close>

theorem summarize_empty_text_returns:
  "statistical_summarize L S [] num_sentences = []
   \<and> extractive_summarize L E [] num_sentences = []
   \<and> statistical_summarize L S ''   '' num_sentences = []
   \<and> extractive_summarize L E ''   '' num_sentences = []"
  by (simp add: statistical_summarize_def extractive_summarize_def blank_def strip_def
      py_isspace_def)

subsection \<open>The retriever\<close>

lemma collect_results_in_range:
  assumes "list_all (\<lambda>(dis, idx). 0 \<le> idx \<and> idx < int (length docs)) hits"
    and "length metas = length docs"
  shows "collect_results docs metas hits
       = Inr (map (\<lambda>(dis, idx). (docs ! nat idx, 1 / (1 + dis), metas ! nat idx)) hits)"
  using assms
proof (induction hits)
  case Nil
  then show ?case by simp
next
  case (Cons h hits)
  obtain dis idx where h: "h = (dis, idx)" by (cases h)
  from Cons.prems(1) h have idx: "0 \<le> idx" "idx < int (length docs)" by simp_all
  from Cons have rest: "collect_results docs metas hits
       = Inr (map (\<lambda>(dis, idx). (docs ! nat idx, 1 / (1 + dis), metas ! nat idx)) hits)"
    by simp
  from idx Cons.prems(2) show ?case
    by (simp add: h rest py_index_def)
qed

lemma build_index_built:
  assumes "build_index r0 docs md = (Inr (), r)" and "metadata_aligned docs md"
  shows "documents r = docs \<and> length (metadata r) = length docs
       \<and> embedding_model r = embedding_model r0
       \<and> (\<exists>encode. model (embedding_model r0) = Some encode
             \<and> index r = Some \<lparr>faiss_d = length (encode (hd docs)), faiss_xb = map encode docs\<rparr>)"
  using assms
  by (cases docs; cases md)
     (auto simp: build_index_def metadata_aligned_def embed_batch_def Let_def
           split: if_splits option.splits sum.splits list.splits)

lemma retrieve_built:
  assumes "build_index r0 docs md = (Inr (), r)" and "metadata_aligned docs md"
    and "index r = Some ix" and "embed_text (embedding_model r) query_text = Inr qe"
    and "faiss_search L ix qe (min top_k (int (length docs))) = Inr hits"
    and "knn_answer (length docs) (min top_k (int (length docs))) hits"
  shows "retrieve L r query_text top_k
       = (Inr (map (\<lambda>(dis, idx). (docs ! nat idx, 1 / (1 + dis), metadata r ! nat idx)) hits), r)"
proof -
  from build_index_built[OF assms(1,2)]
  have docs: "documents r = docs" and len: "length (metadata r) = length docs"
    by simp_all
  from assms(6) have "list_all (\<lambda>(dis, idx). 0 \<le> idx \<and> idx < int (length docs)) hits"
    by (auto simp: knn_answer_def list_all_iff)
  from collect_results_in_range[OF this len]
  show ?thesis
    using assms(3,4,5) by (simp add: retrieve_def docs)
qed

text \<open>The small instance, evaluated.\<close>

lemma sample_embed: "embed_text sample_model t = Inr [real (length t)]"
  by (simp add: embed_text_def sample_model_def load_model_def sample_libs_def)

lemma sample_build:
  "build_index (new_retriever sample_model) sample_docs None = (Inr (), sample_retriever)"
  by (simp add: sample_retriever_def build_index_def new_retriever_def embed_batch_def
      sample_model_def load_model_def sample_libs_def sample_docs_def)

lemma sample_retriever_eq:
  "sample_retriever =
     \<lparr>embedding_model = sample_model,
      index = Some sample_index,
      documents = sample_docs, metadata = [[], [], []]\<rparr>"
  by (simp add: sample_retriever_def build_index_def new_retriever_def embed_batch_def
      sample_model_def load_model_def sample_libs_def sample_docs_def sample_index_def)

lemma sample_scan:
  "flat_scan sample_index [3] 2 = Inr [(9, 2), (36, 0)]"
  "flat_scan sample_index [3] 3 = Inr [(9, 2), (36, 0), (36, 1)]"
  "flat_scan sample_index [0] 2 = Inr [(36, 2), (81, 0)]"
  "flat_scan sample_index [2] 2 = Inr [(16, 2), (49, 0)]"
  by (simp_all add: flat_scan_def sample_index_def l2sqr_def ntotal_def upt_rec)

lemma sample_pipeline_eq:
  "sample_pipeline = sample_unindexed\<lparr>retriever := Some sample_retriever\<rparr>"
  by (simp add: sample_pipeline_def index_documents_def create_retriever_def sample_unindexed_def
      sample_build sample_retriever_def[symmetric])

lemma sample_retrieve:
  "retrieve sample_libs sample_retriever [] 2
     = (Inr [(''iiiii.'', 1 / 37, []), (''a b. c d.'', 1 / 82, [])], sample_retriever)"
  "retrieve sample_libs sample_retriever ''ab'' 2
     = (Inr [(''iiiii.'', 1 / 17, []), (''a b. c d.'', 1 / 50, [])], sample_retriever)"
  "retrieve sample_libs sample_retriever ''xyz'' 2
     = (Inr [(''iiiii.'', 1 / 10, []), (''a b. c d.'', 1 / 37, [])], sample_retriever)"
  by (simp_all add: retrieve_def sample_retriever_eq sample_embed sample_libs_def sample_scan
      sample_docs_def py_index_def)

lemma sample_summaries:
  "extractive_summarize sample_libs sample_extractive ''iiiii. a b. c d.'' 2 = ''iiiii. a b.''"
  "statistical_summarize sample_libs sample_statistical ''iiiii. a b. c d.'' 2 = ''a b. c d.''"
  by (simp_all add: sample_eval)

text \<open>
  C4. For an index built by \<^verbatim>\<open>build_index\<close> from documents with aligned metadata and
  a search answer that meets \<open>knn_answer\<close> (what a flat L2 index returns for
  \<open>1 \<le> top_k\<close>), \<^verbatim>\<open>retrieve\<close> returns exactly \<open>min top_k n\<close> results for a corpus of
  \<open>n\<close> documents, so exactly \<open>n\<close> when \<open>top_k\<close> is greater than \<open>n\<close>.
\<close>

theorem retrieve_returns_min_top_k:
  assumes "build_index r0 docs md = (Inr (), r)" and "metadata_aligned docs md"
    and "index r = Some ix" and "embed_text (embedding_model r) query_text = Inr qe"
    and "faiss_search L ix qe (min top_k (int (length docs))) = Inr hits"
    and "knn_answer (length docs) (min top_k (int (length docs))) hits"
  shows "\<exists>results.
           fst (retrieve L r query_text top_k) = Inr results
         \<and> int (length results) = min top_k (int (length docs))
         \<and> (int (length docs) < top_k \<longrightarrow> length results = length docs)"
proof -
  have "int (length hits) = min top_k (int (length docs))"
    using assms(6) by (simp add: knn_answer_def)
  then show ?thesis
    unfolding retrieve_built[OF assms] by auto
qed

theorem retrieve_returns_min_top_k_witness:
  "build_index (new_retriever sample_model) sample_docs None = (Inr (), sample_retriever)
   \<and> metadata_aligned sample_docs None
   \<and> index sample_retriever = Some sample_index
   \<and> embed_text (embedding_model sample_retriever) ''xyz'' = Inr [3]
   \<and> faiss_search sample_libs sample_index [3]
        (min 5 (int (length sample_docs))) = Inr [(9, 2), (36, 0), (36, 1)]
   \<and> knn_answer (length sample_docs) (min 5 (int (length sample_docs))) [(9, 2), (36, 0), (36, 1)]
   \<and> int (length sample_docs) < 5
   \<and> (\<exists>results. fst (retrieve sample_libs sample_retriever ''xyz'' 5) = Inr results
         \<and> length results = 3)"
proof -
  have h2: "metadata_aligned sample_docs None"
    by (simp add: metadata_aligned_def)
  have h3: "index sample_retriever = Some sample_index"
    by (simp add: sample_retriever_eq)
  have h4: "embed_text (embedding_model sample_retriever) ''xyz'' = Inr [3]"
    by (simp add: sample_retriever_eq sample_embed)
  have h5: "faiss_search sample_libs sample_index [3]
        (min 5 (int (length sample_docs))) = Inr [(9, 2), (36, 0), (36, 1)]"
    by (simp add: sample_libs_def sample_docs_def sample_scan)
  have h6: "knn_answer (length sample_docs) (min 5 (int (length sample_docs)))
        [(9, 2), (36, 0), (36, 1)]"
    by (simp add: knn_answer_def sample_docs_def)
  have h7: "int (length sample_docs) < 5"
    by (simp add: sample_docs_def)
  from retrieve_returns_min_top_k[OF sample_build h2 h3 h4 h5 h6] h7
  have "\<exists>results. fst (retrieve sample_libs sample_retriever ''xyz'' 5) = Inr results
         \<and> length results = 3"
    by (auto simp: sample_docs_def)
  with sample_build h2 h3 h4 h5 h6 h7 show ?thesis
    by simp
qed

subsection \<open>The pipeline\<close>

text \<open>
  C8. \<^verbatim>\<open>retrieve\<close> on a retriever whose index is not built returns the error
  \<open>NotBuilt\<close>, and \<^verbatim>\<open>query_and_summarize\<close> on a pipeline without a retriever returns
  the error \<open>NotIndexed\<close>; the retriever and the pipeline are returned unchanged.
\<close>

theorem errors_before_build_and_index:
  "(index r = None \<longrightarrow> retrieve L r query_text top_k = (Inl NotBuilt, r))
   \<and> (retriever p = None \<longrightarrow>
        query_and_summarize L p query_text top_k num_sentences summarization_method
          = (Inl NotIndexed, p))"
  by (simp add: retrieve_def query_and_summarize_def)

theorem errors_before_build_and_index_witness:
  "index (new_retriever sample_model) = None
   \<and> retrieve sample_libs (new_retriever sample_model) ''xyz'' 3
       = (Inl (ValueError ''Index not built. Call build_index() first.''),
          new_retriever sample_model)
   \<and> retriever sample_unindexed = None
   \<and> query_and_summarize sample_libs sample_unindexed ''xyz'' 3 2 ''extractive''
       = (Inl (ValueError ''Documents not indexed. Call index_documents() first.''),
          sample_unindexed)"
proof -
  have h1: "index (new_retriever sample_model) = None"
    by (simp add: new_retriever_def)
  have h2: "retriever sample_unindexed = None"
    by (simp add: sample_unindexed_def)
  from errors_before_build_and_index
    [of "new_retriever sample_model" sample_libs "''xyz''" 3 sample_unindexed 2 "''extractive''"]
  show ?thesis
    using h1 h2 by (simp add: NotBuilt_def NotIndexed_def)
qed

text \<open>
  C6. The spec has \<^verbatim>\<open>query_and_summarize\<close> fail with \<open>InvalidInput\<close> on a query that is
  empty or shorter than 3 characters; the test of the empty query expects a
  \<^verbatim>\<open>ValueError\<close>, and the front end checks the length before it calls. The method
  itself checks nothing about the query: on the indexed instance the empty query and the
  query \<open>ab\<close> are embedded, retrieved and summarized.
\<close>

theorem query_not_validated:
  "query_and_summarize sample_libs sample_pipeline [] 2 2 ''extractive''
     = (Inr \<lparr>res_query = [],
             res_retrieved_documents = [(''iiiii.'', 1 / 37, []), (''a b. c d.'', 1 / 82, [])],
             res_summary = ''iiiii. a b.'', res_num_retrieved = 2\<rparr>,
        sample_pipeline)
   \<and> query_and_summarize sample_libs sample_pipeline ''ab'' 2 2 ''extractive''
     = (Inr \<lparr>res_query = ''ab'',
             res_retrieved_documents = [(''iiiii.'', 1 / 17, []), (''a b. c d.'', 1 / 50, [])],
             res_summary = ''iiiii. a b.'', res_num_retrieved = 2\<rparr>,
        sample_pipeline)"
  by (simp add: query_and_summarize_def sample_pipeline_eq sample_retrieve sample_unindexed_def
      sample_summaries)

text \<open>
  C7. The spec has \<^verbatim>\<open>query_and_summarize\<close> fail with \<open>UnknownMethod\<close> on a method that
  is not registered, and the test of an invalid method expects a \<^verbatim>\<open>ValueError\<close>. The
  method compares its argument with \<open>extractive\<close> only and takes every other value for
  \<open>statistical\<close>: on the indexed instance \<open>invalid_method\<close> returns the statistical
  summary.
\<close>

theorem unknown_method_runs_statistical:
  "query_and_summarize sample_libs sample_pipeline ''xyz'' 2 2 ''invalid_method''
     = (Inr \<lparr>res_query = ''xyz'',
             res_retrieved_documents = [(''iiiii.'', 1 / 10, []), (''a b. c d.'', 1 / 37, [])],
             res_summary = ''a b. c d.'', res_num_retrieved = 2\<rparr>,
        sample_pipeline)
   \<and> query_and_summarize sample_libs sample_pipeline ''xyz'' 2 2 ''invalid_method''
     = query_and_summarize sample_libs sample_pipeline ''xyz'' 2 2 ''statistical''"
  by (simp add: query_and_summarize_def sample_pipeline_eq sample_retrieve sample_unindexed_def
      sample_summaries)

end
